theory Spec2Isabelle
  imports Main "HOL-Library.Word"
begin

section \<open>Sensor routes of the smart-bus backend\<close>

text \<open>
  A shallow embedding of \<^verbatim>\<open>app/routes/sensor_routes.py\<close>: the three request handlers
  \<^verbatim>\<open>ingest_data\<close>, \<^verbatim>\<open>test_thingspeak\<close> and \<^verbatim>\<open>get_latest_reading\<close>.

  The handlers talk to three collaborators that are not part of the file: the MongoDB
  collection \<^verbatim>\<open>db.sensor_readings\<close>, the \<^verbatim>\<open>ThingspeakService\<close> and the logger. Each
  handler is a function from the state of the world to a result and the new state of
  the world. What a collaborator answers to the one call a handler makes to it (the
  identifier generated for an insert or the exception raised, the boolean returned by
  the relay or the exception raised, a failure of the query) is an argument of the
  handler, so every behaviour of the collaborator is an input of the model.

  Strings are byte strings: a character outside ASCII is written as its UTF-8 bytes.
\<close>

subsection \<open>Values\<close>

text \<open>
  A BSON ObjectId is twelve bytes; the driver and the server compare two of them byte by
  byte, that is as unsigned 96-bit numbers, and \<^verbatim>\<open>str\<close> of one is its 24 hexadecimal
  digits.
\<close>

type_synonym oid = "96 word"

definition hex_digit :: "nat \<Rightarrow> char" where
  "hex_digit n = ''0123456789abcdef'' ! (n mod 16)"

fun hex_of :: "nat \<Rightarrow> nat \<Rightarrow> string" where
  "hex_of 0 n = []"
| "hex_of (Suc k) n = hex_of k (n div 16) @ [hex_digit n]"

definition str_oid :: "oid \<Rightarrow> string" where
  "str_oid i = hex_of 24 (unat i)"

text \<open>
  Python values as far as the handlers see them. Floating-point numbers are opaque: the
  handlers only pass them on, so the type of floats is a parameter \<open>'f\<close>.
\<close>

datatype 'f pyval =
    PyNone
  | PyInt int
  | PyFloat 'f
  | PyStr string
  | PyOid oid
  | PyList "'f pyval list"

text \<open>A Python dict with string keys; a lookup finds the first entry of a key.\<close>

type_synonym 'f pydict = "(string \<times> 'f pyval) list"

definition dict_get :: "'f pydict \<Rightarrow> string \<Rightarrow> 'f pyval \<Rightarrow> 'f pyval" where
  "dict_get d k dflt = (case map_of d k of None \<Rightarrow> dflt | Some v \<Rightarrow> v)"

text \<open>
  Exceptions. \<open>HTTPException status_code detail\<close> is FastAPI's; it is a subclass of
  \<^verbatim>\<open>Exception\<close>. \<open>Error msg\<close> is any other subclass of \<^verbatim>\<open>Exception\<close>, with \<^verbatim>\<open>str(e)\<close>
  equal to \<open>msg\<close>.
\<close>

datatype exn = HTTPException nat string | Error string

text \<open>
  Modelled from the spec: the \<^verbatim>\<open>SensorReading\<close> model of \<^verbatim>\<open>app/models/sensor.py\<close>, which
  is not among the sources: a floating-point temperature, a floating-point humidity and
  any further fields accepted by validation. \<open>reading_dict\<close> is \<^verbatim>\<open>reading.dict()\<close>. A
  field of a pydantic model cannot be named \<^verbatim>\<open>_id\<close>, so the dict has no such key.
\<close>

record 'f SensorReading =
  temperature :: 'f
  humidity :: 'f
  extra :: "'f pydict"

definition reading_dict :: "'f SensorReading \<Rightarrow> 'f pydict" where
  "reading_dict r =
     [(''temperature'', PyFloat (temperature r)), (''humidity'', PyFloat (humidity r))] @ extra r"

subsection \<open>The world\<close>

text \<open>
  The log records of the handlers; the text of a record is left out, its formatted
  argument is kept.
\<close>

datatype log_record =
    SensorDataSaved oid
  | ThingspeakSent
  | IngestFailed string
  | ThingspeakTestFailed string

datatype 'f event =
    InsertOne "'f pydict"
  | FindOne
  | SendData 'f 'f
  | LogInfo log_record
  | LogError log_record

text \<open>
  \<open>sensor_readings\<close> is the collection, in insertion order, each document with its
  \<^verbatim>\<open>_id\<close>. \<open>trace\<close> lists the calls made to the collaborators, oldest first.
\<close>

record 'f world =
  sensor_readings :: "(oid \<times> 'f pydict) list"
  trace :: "'f event list"

text \<open>
  What is fixed for the process: the configured secret \<^verbatim>\<open>settings.iot_api_key\<close>, what
  \<^verbatim>\<open>str\<close> makes of an \<^verbatim>\<open>HTTPException\<close> (it depends on the version of Starlette) and
  how an f-string formats a float.
\<close>

record 'f env =
  iot_api_key :: "string option"
  str_http :: "nat \<Rightarrow> string \<Rightarrow> string"
  fmt :: "'f \<Rightarrow> string"

definition str_exn :: "'f env \<Rightarrow> exn \<Rightarrow> string" where
  "str_exn env e = (case e of HTTPException c d \<Rightarrow> str_http env c d | Error m \<Rightarrow> m)"

subsection \<open>Effects\<close>

type_synonym ('a, 'f) io = "'f world \<Rightarrow> (exn + 'a) \<times> 'f world"

definition return_io :: "'a \<Rightarrow> ('a, 'f) io" where
  "return_io v = (\<lambda>w. (Inr v, w))"

definition raise_io :: "exn \<Rightarrow> ('a, 'f) io" where
  "raise_io e = (\<lambda>w. (Inl e, w))"

definition bind_io :: "('a, 'f) io \<Rightarrow> ('a \<Rightarrow> ('b, 'f) io) \<Rightarrow> ('b, 'f) io" where
  "bind_io m f = (\<lambda>w. case m w of (Inl e, w') \<Rightarrow> (Inl e, w') | (Inr v, w') \<Rightarrow> f v w')"

text \<open>\<^verbatim>\<open>try: m except Exception as e: h e\<close>\<close>

definition try_except :: "('a, 'f) io \<Rightarrow> (exn \<Rightarrow> ('a, 'f) io) \<Rightarrow> ('a, 'f) io" where
  "try_except m h = (\<lambda>w. case m w of (Inl e, w') \<Rightarrow> h e w' | (Inr v, w') \<Rightarrow> (Inr v, w'))"

definition emit :: "'f event \<Rightarrow> (unit, 'f) io" where
  "emit ev = (\<lambda>w. (Inr (), w\<lparr>trace := trace w @ [ev]\<rparr>))"

subsection \<open>The collaborators\<close>

text \<open>
  \<^verbatim>\<open>db.sensor_readings.insert_one(d)\<close>. The outcome \<open>out\<close> is the exception the driver
  raises or the ObjectId it generates. The index on \<^verbatim>\<open>_id\<close> is unique: an identifier
  that is already in the collection is refused. A failed insert leaves the collection
  as it was.
\<close>

definition insert_one :: "exn + oid \<Rightarrow> 'f pydict \<Rightarrow> (oid, 'f) io" where
  "insert_one out d =
     bind_io (emit (InsertOne d)) (\<lambda>_.
       case out of
         Inl e \<Rightarrow> raise_io e
       | Inr i \<Rightarrow> (\<lambda>w.
           if i \<in> set (map fst (sensor_readings w))
           then (Inl (Error ''E11000 duplicate key error''), w)
           else (Inr i, w\<lparr>sensor_readings := sensor_readings w @ [(i, d)]\<rparr>)))"

text \<open>The document with the largest \<^verbatim>\<open>_id\<close>, as \<^verbatim>\<open>sort=[("_id", -1)]\<close> asks.\<close>

fun newest :: "(oid \<times> 'd) list \<Rightarrow> (oid \<times> 'd) option" where
  "newest [] = None"
| "newest (p # ps) =
     (case newest ps of
        None \<Rightarrow> Some p
      | Some q \<Rightarrow> if fst p < fst q then Some q else Some p)"

text \<open>
  \<^verbatim>\<open>db.sensor_readings.find_one(sort=[("_id", -1)])\<close>: \<^verbatim>\<open>None\<close> on an empty collection,
  else the document, which carries its \<^verbatim>\<open>_id\<close>. \<open>fault\<close> is the exception the driver
  raises, if it does.
\<close>

definition find_one :: "exn option \<Rightarrow> ('f pydict option, 'f) io" where
  "find_one fault =
     bind_io (emit FindOne) (\<lambda>_.
       case fault of
         Some e \<Rightarrow> raise_io e
       | None \<Rightarrow> (\<lambda>w.
           (Inr (map_option (\<lambda>(i, d). (''_id'', PyOid i) # d) (newest (sensor_readings w))), w)))"

text \<open>
  \<^verbatim>\<open>thingspeak_service.send_data(temperature, humidity)\<close>, of
  \<^verbatim>\<open>app/services/thingspeak_service.py\<close>, which is not among the sources: the outcome
  \<open>out\<close> is the boolean it returns or the exception it raises.
\<close>

definition send_data :: "exn + bool \<Rightarrow> 'f \<Rightarrow> 'f \<Rightarrow> (bool, 'f) io" where
  "send_data out t h =
     bind_io (emit (SendData t h)) (\<lambda>_.
       case out of Inl e \<Rightarrow> raise_io e | Inr b \<Rightarrow> return_io b)"

subsection \<open>The handlers\<close>

text \<open>\<^verbatim>\<open>"Chave IoT inv\<close>a-acute\<^verbatim>\<open>lida."\<close>\<close>

definition detail_401 :: string where
  "detail_401 = ''Chave IoT inv'' @ [CHR 0xC3, CHR 0xA1] @ ''lida.''"

definition ingest_data ::
  "'f env \<Rightarrow> exn + oid \<Rightarrow> exn + bool \<Rightarrow> 'f SensorReading \<Rightarrow> string option \<Rightarrow> ('f pydict, 'f) io"
where
  "ingest_data env ins rel reading x_api_key =
     (if x_api_key \<noteq> iot_api_key env then raise_io (HTTPException 401 detail_401)
      else
        try_except
          (bind_io (insert_one ins (reading_dict reading)) (\<lambda>inserted_id.
           bind_io (emit (LogInfo (SensorDataSaved inserted_id))) (\<lambda>_.
           bind_io (send_data rel (temperature reading) (humidity reading)) (\<lambda>_.
           bind_io (emit (LogInfo ThingspeakSent)) (\<lambda>_.
           return_io [(''status'', PyStr ''ok''), (''id'', PyStr (str_oid inserted_id))])))))
          (\<lambda>e.
           bind_io (emit (LogError (IngestFailed (str_exn env e)))) (\<lambda>_.
           raise_io (HTTPException 500 (str_exn env e)))))"

text \<open>
  The message of the test route: the two values, formatted, between the fixed parts
  (the degree sign is two bytes).
\<close>

definition thingspeak_message :: "'f env \<Rightarrow> 'f \<Rightarrow> 'f \<Rightarrow> string" where
  "thingspeak_message env t h =
     ''Dados enviados ao ThingSpeak: '' @ fmt env t @ [CHR 0xC2, CHR 0xB0] @ ''C / ''
       @ fmt env h @ ''%''"

definition test_thingspeak :: "'f env \<Rightarrow> exn + bool \<Rightarrow> 'f \<Rightarrow> 'f \<Rightarrow> ('f pydict, 'f) io" where
  "test_thingspeak env rel t h =
     try_except
       (bind_io (send_data rel t h) (\<lambda>success.
          if success
          then return_io
                 [(''status'', PyStr ''success''),
                  (''message'', PyStr (thingspeak_message env t h))]
          else raise_io (HTTPException 400 ''Falha ao enviar ao ThingSpeak.'')))
       (\<lambda>e.
        bind_io (emit (LogError (ThingspeakTestFailed (str_exn env e)))) (\<lambda>_.
        raise_io (HTTPException 500 (str_exn env e))))"

text \<open>\<^verbatim>\<open>not doc\<close>: \<^verbatim>\<open>None\<close> and the empty dict are false.\<close>

definition not_doc :: "'f pydict option \<Rightarrow> bool" where
  "not_doc doc = (case doc of None \<Rightarrow> True | Some d \<Rightarrow> d = [])"

definition onibus :: "'f pyval" where
  "onibus = PyList [PyStr ''Bus 101'', PyStr ''Bus 202'']"

text \<open>\<^verbatim>\<open>"Erro ao buscar \<close>u-acute\<^verbatim>\<open>ltima leitura: "\<close>\<close>

definition latest_error_prefix :: string where
  "latest_error_prefix = ''Erro ao buscar '' @ [CHR 0xC3, CHR 0xBA] @ ''ltima leitura: ''"

definition get_latest_reading :: "'f env \<Rightarrow> exn option \<Rightarrow> ('f pydict, 'f) io" where
  "get_latest_reading env fault =
     try_except
       (bind_io (find_one fault) (\<lambda>doc.
          if not_doc doc then raise_io (HTTPException 404 ''Nenhum dado encontrado'')
          else
            (case doc of
               None \<Rightarrow> raise_io (Error ''AttributeError'')
             | Some d \<Rightarrow>
                 return_io
                   [(''temperatura'', dict_get d ''temperature'' (PyInt 0)),
                    (''umidade'', dict_get d ''humidity'' (PyInt 0)),
                    (''onibus'', onibus)])))
       (\<lambda>e. raise_io (HTTPException 500 (latest_error_prefix @ str_exn env e)))"

text \<open>
  The status of the HTTP response the framework makes of a handler's outcome: 200 for a
  returned payload, the status code of a raised \<^verbatim>\<open>HTTPException\<close>, 500 for any other
  exception.
\<close>

definition http_status :: "exn + 'a \<Rightarrow> nat" where
  "http_status r =
     (case r of Inr _ \<Rightarrow> 200 | Inl (HTTPException c _) \<Rightarrow> c | Inl (Error _) \<Rightarrow> 500)"

subsection \<open>Observations and examples\<close>

text \<open>The calls to the relay recorded in a trace, oldest first.\<close>

fun relay_calls :: "'f event list \<Rightarrow> ('f \<times> 'f) list" where
  "relay_calls [] = []"
| "relay_calls (SendData t h # evs) = (t, h) # relay_calls evs"
| "relay_calls (_ # evs) = relay_calls evs"

text \<open>
  The values used in the examples. There a float is given by its \<^verbatim>\<open>repr\<close>, and \<^verbatim>\<open>str\<close>
  of an \<^verbatim>\<open>HTTPException\<close> is \<^verbatim>\<open>"{status_code}: {detail}"\<close>, as in the current Starlette
  (for a status of three digits).
\<close>

definition dec_digit :: "nat \<Rightarrow> char" where
  "dec_digit n = ''0123456789'' ! (n mod 10)"

definition starlette_str :: "nat \<Rightarrow> string \<Rightarrow> string" where
  "starlette_str c d = [dec_digit (c div 100), dec_digit (c div 10), dec_digit c] @ '': '' @ d"

definition env0 :: "string env" where
  "env0 = \<lparr>iot_api_key = Some ''secret'', str_http = starlette_str, fmt = (\<lambda>s. s)\<rparr>"

definition env_no_key :: "string env" where
  "env_no_key = \<lparr>iot_api_key = None, str_http = starlette_str, fmt = (\<lambda>s. s)\<rparr>"

definition reading0 :: "string SensorReading" where
  "reading0 = \<lparr>temperature = ''25.6'', humidity = ''80.0'', extra = []\<rparr>"

definition w0 :: "string world" where
  "w0 = \<lparr>sensor_readings = [], trace = []\<rparr>"

definition w2 :: "string world" where
  "w2 = \<lparr>sensor_readings =
            [(1, [(''temperature'', PyFloat ''19.5''), (''humidity'', PyFloat ''60.0'')]),
             (2, [(''temperature'', PyFloat ''25.6'')])],
          trace = []\<rparr>"

section \<open>Properties\<close>

subsection \<open>Auxiliary facts\<close>

lemmas io_defs = return_io_def raise_io_def bind_io_def try_except_def emit_def

lemma relay_calls_append: "relay_calls (xs @ ys) = relay_calls xs @ relay_calls ys"
  by (induction xs rule: relay_calls.induct) simp_all

lemma insert_one_Inr:
  "fst (insert_one ins d w) = Inr i \<longleftrightarrow> ins = Inr i \<and> i \<notin> set (map fst (sensor_readings w))"
  by (auto simp: insert_one_def io_defs split: sum.splits if_splits)

lemma insert_one_ok:
  "fst (insert_one ins d w) = Inr i \<Longrightarrow>
   insert_one ins d w =
     (Inr i, w\<lparr>sensor_readings := sensor_readings w @ [(i, d)], trace := trace w @ [InsertOne d]\<rparr>)"
  by (auto simp: insert_one_def io_defs split: sum.splits if_splits)

lemma insert_one_fail:
  "fst (insert_one ins d w) = Inl e \<Longrightarrow>
   insert_one ins d w = (Inl e, w\<lparr>trace := trace w @ [InsertOne d]\<rparr>)"
  by (auto simp: insert_one_def io_defs split: sum.splits if_splits)

lemma hex_of_length: "length (hex_of k n) = k"
  by (induction k arbitrary: n) simp_all

lemma str_oid_length: "length (str_oid i) = 24"
  by (simp add: str_oid_def hex_of_length)

lemma newest_None: "newest ds = None \<longleftrightarrow> ds = []"
  by (induction ds) (auto split: option.splits)

lemma newest_mem: "newest ds = Some p \<Longrightarrow> p \<in> set ds"
  by (induction ds arbitrary: p) (auto split: option.splits if_splits)

lemma newest_max: "newest ds = Some p \<Longrightarrow> q \<in> set ds \<Longrightarrow> fst q \<le> fst p"
  by (induction ds arbitrary: p) (fastforce split: option.splits if_splits simp: newest_None)+

lemma newest_last:
  "ds \<noteq> [] \<Longrightarrow> sorted_wrt (<) (map fst ds) \<Longrightarrow> newest ds = Some (last ds)"
proof (induction ds)
  case Nil
  then show ?case by simp
next
  case (Cons p ps)
  show ?case
  proof (cases "ps = []")
    case True
    then show ?thesis by simp
  next
    case False
    with Cons have n: "newest ps = Some (last ps)" by simp
    from False have "last ps \<in> set ps" by simp
    with Cons.prems(2) have "fst p < fst (last ps)" by auto
    with n False show ?thesis by simp
  qed
qed

lemma get_latest_Some:
  "newest (sensor_readings w) = Some (i, d) \<Longrightarrow>
   get_latest_reading env None w =
     (Inr [(''temperatura'', case map_of d ''temperature'' of None \<Rightarrow> PyInt 0 | Some v \<Rightarrow> v),
           (''umidade'', case map_of d ''humidity'' of None \<Rightarrow> PyInt 0 | Some v \<Rightarrow> v),
           (''onibus'', PyList [PyStr ''Bus 101'', PyStr ''Bus 202''])],
      w\<lparr>trace := trace w @ [FindOne]\<rparr>)"
  by (simp add: get_latest_reading_def find_one_def io_defs not_doc_def dict_get_def onibus_def)

lemma get_latest_docs:
  "sensor_readings (snd (get_latest_reading env fault w)) = sensor_readings w"
  by (cases fault; cases "newest (sensor_readings w)")
     (auto simp add: get_latest_reading_def find_one_def io_defs not_doc_def)

lemma get_latest_fun:
  "sensor_readings w = sensor_readings w' \<Longrightarrow>
   fst (get_latest_reading env fault w) = fst (get_latest_reading env fault w')"
  by (cases fault; cases "newest (sensor_readings w)")
     (auto simp add: get_latest_reading_def find_one_def io_defs not_doc_def)

lemma ingest_relay_calls:
  "relay_calls (trace (snd (ingest_data env ins rel reading x_api_key w)))
     = relay_calls (trace w) @
       (if x_api_key = iot_api_key env \<and> \<not> isl (fst (insert_one ins (reading_dict reading) w))
        then [(temperature reading, humidity reading)] else [])"
proof (cases "fst (insert_one ins (reading_dict reading) w)")
  case (Inl e)
  then show ?thesis using insert_one_fail[OF Inl]
    by (simp add: ingest_data_def io_defs relay_calls_append)
next
  case (Inr i)
  then show ?thesis using insert_one_ok[OF Inr]
    by (cases rel) (simp_all add: ingest_data_def send_data_def io_defs relay_calls_append)
qed

lemma ingest_trace_ok:
  assumes "x_api_key = iot_api_key env"
    and "fst (insert_one ins (reading_dict reading) w) = Inr i"
  shows "\<exists>post. trace (snd (ingest_data env ins rel reading x_api_key w))
           = trace w @ [InsertOne (reading_dict reading), LogInfo (SensorDataSaved i),
                        SendData (temperature reading) (humidity reading)] @ post"
  using assms(1) insert_one_ok[OF assms(2)]
  by (cases rel) (simp_all add: ingest_data_def send_data_def io_defs)

lemma ingest_authenticated_not_401:
  assumes "x_api_key = iot_api_key env"
  shows "fst (ingest_data env ins rel reading x_api_key w) \<noteq> Inl (HTTPException 401 d)"
proof (cases "fst (insert_one ins (reading_dict reading) w)")
  case (Inl e)
  then show ?thesis using assms insert_one_fail[OF Inl]
    by (simp add: ingest_data_def io_defs)
next
  case (Inr i)
  then show ?thesis using assms insert_one_ok[OF Inr]
    by (cases rel) (simp_all add: ingest_data_def send_data_def io_defs)
qed

lemma ingest_authenticated_inserts:
  assumes "x_api_key = iot_api_key env"
  shows "\<exists>post. trace (snd (ingest_data env ins rel reading x_api_key w))
           = trace w @ InsertOne (reading_dict reading) # post"
proof (cases "fst (insert_one ins (reading_dict reading) w)")
  case (Inl e)
  then show ?thesis using assms insert_one_fail[OF Inl]
    by (simp add: ingest_data_def io_defs)
next
  case (Inr i)
  then show ?thesis using assms insert_one_ok[OF Inr]
    by (cases rel) (simp_all add: ingest_data_def send_data_def io_defs)
qed

subsection \<open>The ingestion handler\<close>

text \<open>
  C1 (as the claim states it, refuted): with the correct credential and a successful
  insert the handler would answer with the success acknowledgment whatever the relay
  does, also when the relay raises. Here the credential is right, the insert succeeds
  with identifier 1 and the relay raises: the response is the internal error 500 with
  the relay's message, not the acknowledgment.
\<close>

theorem ingest_relay_raises_counterexample:
  "fst (insert_one (Inr 1) (reading_dict reading0) w0) = Inr 1
   \<and> fst (ingest_data env0 (Inr 1) (Inl (Error ''timeout'')) reading0 (Some ''secret'') w0)
       = Inl (HTTPException 500 ''timeout'')
   \<and> fst (ingest_data env0 (Inr 1) (Inl (Error ''timeout'')) reading0 (Some ''secret'') w0)
       \<noteq> Inr [(''status'', PyStr ''ok''), (''id'', PyStr (str_oid 1))]"
  by (simp add: ingest_data_def insert_one_def send_data_def io_defs env0_def w0_def
      reading0_def str_exn_def)

text \<open>
  C1 (amended): for every request to /ingest with the correct credential whose insert
  succeeds with identifier \<open>i\<close>, the handler returns the success acknowledgment with the
  string form of \<open>i\<close> whether the relay returns true or false; when the relay raises
  \<open>e\<close>, the handler raises the internal error 500 whose detail is \<open>str(e)\<close>.
\<close>

theorem ingest_relay_outcome:
  assumes "x_api_key = iot_api_key env"
    and "fst (insert_one ins (reading_dict reading) w) = Inr i"
  shows "fst (ingest_data env ins (Inr b) reading x_api_key w)
           = Inr [(''status'', PyStr ''ok''), (''id'', PyStr (str_oid i))]
       \<and> fst (ingest_data env ins (Inl e) reading x_api_key w)
           = Inl (HTTPException 500 (str_exn env e))"
  using assms(1) insert_one_ok[OF assms(2)]
  by (simp add: ingest_data_def send_data_def io_defs)

theorem ingest_relay_outcome_witness:
  "Some ''secret'' = iot_api_key env0
   \<and> fst (insert_one (Inr 7) (reading_dict reading0) w2) = Inr 7
   \<and> fst (ingest_data env0 (Inr 7) (Inr False) reading0 (Some ''secret'') w2)
       = Inr [(''status'', PyStr ''ok''), (''id'', PyStr (str_oid 7))]
   \<and> fst (ingest_data env0 (Inr 7) (Inl (Error ''boom'')) reading0 (Some ''secret'') w2)
       = Inl (HTTPException 500 ''boom'')"
proof -
  have k: "Some ''secret'' = iot_api_key env0"
    by (simp add: env0_def)
  have i: "fst (insert_one (Inr 7) (reading_dict reading0) w2) = Inr 7"
    by (simp add: insert_one_def io_defs w2_def)
  show ?thesis
    using k i ingest_relay_outcome [OF k i, of False "Error ''boom''"]
    by (simp add: str_exn_def)
qed

text \<open>
  C4: for every request to /ingest whose credential differs from the configured secret,
  the handler raises the HTTP error 401 and leaves the world as it was: no insert is
  attempted, no relay call is made, nothing is logged. The check comes before any
  persistence.
\<close>

theorem ingest_unauthorized:
  assumes "x_api_key \<noteq> iot_api_key env"
  shows "ingest_data env ins rel reading x_api_key w = (Inl (HTTPException 401 detail_401), w)
       \<and> http_status (fst (ingest_data env ins rel reading x_api_key w)) = 401"
  using assms by (simp add: ingest_data_def io_defs http_status_def)

theorem ingest_unauthorized_witness:
  "Some ''guess'' \<noteq> iot_api_key env0
   \<and> ingest_data env0 (Inr 3) (Inr True) reading0 (Some ''guess'') w2
       = (Inl (HTTPException 401 detail_401), w2)
   \<and> http_status (fst (ingest_data env0 (Inr 3) (Inr True) reading0 (Some ''guess'') w2)) = 401"
proof -
  have k: "Some ''guess'' \<noteq> iot_api_key env0"
    by (simp add: env0_def)
  show ?thesis
    using k ingest_unauthorized [OF k, of "Inr 3" "Inr True" reading0 w2]
    by (simp add: http_status_def)
qed

text \<open>
  C5 (as the claim states it, refuted): every valid reading submitted with the correct
  credential would be answered with the success payload. Here the reading is valid, the
  credential is right and the insert succeeds with identifier 5, but the relay raises:
  the one document is in the collection, as the claim says, and the response is the
  internal error 500, not the success payload.
\<close>

theorem ingest_success_payload_counterexample:
  "sensor_readings
     (snd (ingest_data env0 (Inr 5) (Inl (Error ''connection refused'')) reading0 (Some ''secret'') w0))
     = [(5, [(''temperature'', PyFloat ''25.6''), (''humidity'', PyFloat ''80.0'')])]
   \<and> http_status
       (fst (ingest_data env0 (Inr 5) (Inl (Error ''connection refused'')) reading0 (Some ''secret'') w0))
     = 500"
  by (simp add: ingest_data_def insert_one_def send_data_def io_defs env0_def w0_def
      reading0_def reading_dict_def str_exn_def http_status_def)

text \<open>
  C5 (amended): for every valid reading submitted to /ingest with the correct
  credential whose insert succeeds, exactly one document, the reading's dict, is added
  to the collection under the identifier \<open>i\<close> the store generated, whatever the relay
  does (it returns true, returns false or raises: the insert is never undone); and when
  the relay call returns (true or false), the response is the payload
  \<^verbatim>\<open>{status: "ok", id: str(i)}\<close>, whose identifier is not empty.
\<close>

theorem ingest_persists_one:
  assumes "x_api_key = iot_api_key env"
    and "fst (insert_one ins (reading_dict reading) w) = Inr i"
  shows "ins = Inr i
       \<and> sensor_readings (snd (ingest_data env ins rel reading x_api_key w))
           = sensor_readings w @ [(i, reading_dict reading)]
       \<and> fst (ingest_data env ins (Inr b) reading x_api_key w)
           = Inr [(''status'', PyStr ''ok''), (''id'', PyStr (str_oid i))]
       \<and> str_oid i \<noteq> []"
proof -
  have "length (str_oid i) = 24" by (rule str_oid_length)
  then have "str_oid i \<noteq> []" by auto
  moreover have "ins = Inr i" using assms(2) by (simp add: insert_one_Inr)
  moreover have "sensor_readings (snd (ingest_data env ins rel reading x_api_key w))
                   = sensor_readings w @ [(i, reading_dict reading)]"
    using assms(1) insert_one_ok[OF assms(2)]
    by (cases rel) (simp_all add: ingest_data_def send_data_def io_defs)
  moreover have "fst (ingest_data env ins (Inr b) reading x_api_key w)
                   = Inr [(''status'', PyStr ''ok''), (''id'', PyStr (str_oid i))]"
    using assms(1) insert_one_ok[OF assms(2)]
    by (simp add: ingest_data_def send_data_def io_defs)
  ultimately show ?thesis by simp
qed

theorem ingest_persists_one_witness:
  "Some ''secret'' = iot_api_key env0
   \<and> fst (insert_one (Inr 9) (reading_dict reading0) w2) = Inr 9
   \<and> sensor_readings
       (snd (ingest_data env0 (Inr 9) (Inl (Error ''read timed out'')) reading0 (Some ''secret'') w2))
       = sensor_readings w2 @ [(9, reading_dict reading0)]
   \<and> sensor_readings (snd (ingest_data env0 (Inr 9) (Inr False) reading0 (Some ''secret'') w2))
       = sensor_readings w2 @ [(9, reading_dict reading0)]
   \<and> fst (ingest_data env0 (Inr 9) (Inr False) reading0 (Some ''secret'') w2)
       = Inr [(''status'', PyStr ''ok''), (''id'', PyStr (str_oid 9))]
   \<and> str_oid 9 \<noteq> []"
proof -
  have k: "Some ''secret'' = iot_api_key env0"
    by (simp add: env0_def)
  have i: "fst (insert_one (Inr 9) (reading_dict reading0) w2) = Inr 9"
    by (simp add: insert_one_def io_defs w2_def)
  show ?thesis
    using k i
      ingest_persists_one [OF k i, of "Inl (Error ''read timed out'')" False]
      ingest_persists_one [OF k i, of "Inr False" False]
    by simp
qed

text \<open>
  C9: a request to /ingest without the credential header (\<^verbatim>\<open>x_api_key\<close> is \<^verbatim>\<open>None\<close>) is
  answered with 401 exactly when the configured secret is not \<^verbatim>\<open>None\<close>, and then the
  world is left as it was; when the configured secret is \<^verbatim>\<open>None\<close> the request is
  authenticated and the handler goes on to the insert.
\<close>

theorem ingest_missing_header:
  "(fst (ingest_data env ins rel reading None w) = Inl (HTTPException 401 detail_401)
      \<longleftrightarrow> iot_api_key env \<noteq> None)
   \<and> (iot_api_key env \<noteq> None \<longrightarrow> snd (ingest_data env ins rel reading None w) = w)
   \<and> (iot_api_key env = None \<longrightarrow>
        (\<exists>post. trace (snd (ingest_data env ins rel reading None w))
           = trace w @ InsertOne (reading_dict reading) # post))"
proof (cases "iot_api_key env")
  case None
  then have k: "None = iot_api_key env" by simp
  show ?thesis
    using None ingest_authenticated_not_401 [OF k] ingest_authenticated_inserts [OF k]
    by simp
next
  case (Some s)
  then show ?thesis
    by (simp add: ingest_data_def io_defs)
qed

theorem ingest_missing_header_witness:
  "iot_api_key env0 \<noteq> None
   \<and> fst (ingest_data env0 (Inr 4) (Inr True) reading0 None w0) = Inl (HTTPException 401 detail_401)
   \<and> snd (ingest_data env0 (Inr 4) (Inr True) reading0 None w0) = w0
   \<and> iot_api_key env_no_key = None
   \<and> fst (ingest_data env_no_key (Inr 4) (Inr True) reading0 None w0)
       \<noteq> Inl (HTTPException 401 detail_401)
   \<and> (\<exists>post. trace (snd (ingest_data env_no_key (Inr 4) (Inr True) reading0 None w0))
         = trace w0 @ InsertOne (reading_dict reading0) # post)"
proof -
  have a: "iot_api_key env0 \<noteq> None" by (simp add: env0_def)
  have b: "iot_api_key env_no_key = None" by (simp add: env_no_key_def)
  show ?thesis
    using a b
      ingest_missing_header [of env0 "Inr 4" "Inr True" reading0 w0]
      ingest_missing_header [of env_no_key "Inr 4" "Inr True" reading0 w0]
    by simp
qed

text \<open>
  C10: in /ingest the relay is called only after the insert has succeeded. The relay
  calls of a request are exactly one, with the reading's temperature and humidity, when
  the credential is right and the insert succeeds, and none otherwise; when the relay
  is called, the insert and its log record precede the call; and when the insert raises
  \<open>e\<close>, the handler raises the internal error 500 whose detail is \<open>str(e)\<close>.
\<close>

theorem ingest_relay_after_insert:
  "relay_calls (trace (snd (ingest_data env ins rel reading x_api_key w)))
     = relay_calls (trace w) @
       (if x_api_key = iot_api_key env \<and> \<not> isl (fst (insert_one ins (reading_dict reading) w))
        then [(temperature reading, humidity reading)] else [])
   \<and> (x_api_key = iot_api_key env \<longrightarrow> fst (insert_one ins (reading_dict reading) w) = Inr i \<longrightarrow>
        (\<exists>post. trace (snd (ingest_data env ins rel reading x_api_key w))
           = trace w @ [InsertOne (reading_dict reading), LogInfo (SensorDataSaved i),
                        SendData (temperature reading) (humidity reading)] @ post))
   \<and> (x_api_key = iot_api_key env \<longrightarrow> fst (insert_one ins (reading_dict reading) w) = Inl e \<longrightarrow>
        fst (ingest_data env ins rel reading x_api_key w) = Inl (HTTPException 500 (str_exn env e))
        \<and> http_status (fst (ingest_data env ins rel reading x_api_key w)) = 500
        \<and> relay_calls (trace (snd (ingest_data env ins rel reading x_api_key w)))
            = relay_calls (trace w))"
proof -
  have raises: "fst (ingest_data env ins rel reading x_api_key w)
                  = Inl (HTTPException 500 (str_exn env e))"
    if k: "x_api_key = iot_api_key env"
      and f: "fst (insert_one ins (reading_dict reading) w) = Inl e"
    using k insert_one_fail [OF f] by (simp add: ingest_data_def io_defs)
  show ?thesis
    using ingest_relay_calls [of env ins rel reading x_api_key w]
      ingest_trace_ok [of x_api_key env ins reading w i rel] raises
    by (auto simp: http_status_def)
qed

theorem ingest_relay_after_insert_witness:
  "Some ''secret'' = iot_api_key env0
   \<and> fst (insert_one (Inl (Error ''server selection timeout'')) (reading_dict reading0) w0)
       = Inl (Error ''server selection timeout'')
   \<and> fst (ingest_data env0 (Inl (Error ''server selection timeout'')) (Inr True) reading0
            (Some ''secret'') w0)
       = Inl (HTTPException 500 ''server selection timeout'')
   \<and> relay_calls (trace (snd (ingest_data env0 (Inl (Error ''server selection timeout''))
            (Inr True) reading0 (Some ''secret'') w0))) = []
   \<and> fst (insert_one (Inr 6) (reading_dict reading0) w0) = Inr 6
   \<and> relay_calls (trace (snd (ingest_data env0 (Inr 6) (Inr True) reading0 (Some ''secret'') w0)))
       = [(''25.6'', ''80.0'')]
   \<and> (\<exists>post. trace (snd (ingest_data env0 (Inr 6) (Inr True) reading0 (Some ''secret'') w0))
         = [InsertOne (reading_dict reading0), LogInfo (SensorDataSaved 6),
            SendData ''25.6'' ''80.0''] @ post)"
proof -
  have k: "Some ''secret'' = iot_api_key env0"
    by (simp add: env0_def)
  have f: "fst (insert_one (Inl (Error ''server selection timeout'')) (reading_dict reading0) w0)
             = Inl (Error ''server selection timeout'')"
    by (simp add: insert_one_def io_defs)
  have s: "fst (insert_one (Inr 6) (reading_dict reading0) w0) = Inr 6"
    by (simp add: insert_one_def io_defs w0_def)
  have t: "temperature reading0 = ''25.6''" "humidity reading0 = ''80.0''" "trace w0 = []"
    by (simp_all add: reading0_def w0_def)
  show ?thesis
    using k f s t
      ingest_relay_after_insert [of env0 "Inl (Error ''server selection timeout'')" "Inr True"
        reading0 "Some ''secret''" w0 6 "Error ''server selection timeout''"]
      ingest_relay_after_insert [of env0 "Inr 6" "Inr True" reading0 "Some ''secret''" w0 6
        "Error ''unused''"]
    by (simp add: str_exn_def)
qed

subsection \<open>The manual relay test handler\<close>

text \<open>
  C3 (the code at the failing input): the relay returns false without raising. The
  handler raises \<^verbatim>\<open>HTTPException(400)\<close> inside its \<^verbatim>\<open>try\<close> block, the
  \<^verbatim>\<open>except Exception\<close> clause of the same block catches it, and the handler raises the
  internal error 500 whose detail is \<^verbatim>\<open>str\<close> of the caught exception: the status of the
  response is 500, not 400.
\<close>

theorem test_thingspeak_relay_false:
  "test_thingspeak env (Inr False) t h w =
     (Inl (HTTPException 500 (str_http env 400 ''Falha ao enviar ao ThingSpeak.'')),
      w\<lparr>trace := trace w @
          [SendData t h,
           LogError (ThingspeakTestFailed (str_http env 400 ''Falha ao enviar ao ThingSpeak.''))]\<rparr>)
   \<and> http_status (fst (test_thingspeak env (Inr False) t h w)) = 500"
  by (simp add: test_thingspeak_def send_data_def io_defs str_exn_def http_status_def)

text \<open>
  C7: for every pair of values (temperature, humidity) given to /test_thingspeak, when
  the relay reports success the handler returns the payload
  \<^verbatim>\<open>{status: "success", message: ...}\<close> whose message is the fixed text with exactly
  those two values formatted into it; the relay was called once, with those values.
\<close>

theorem test_thingspeak_success:
  "test_thingspeak env (Inr True) t h w =
     (Inr [(''status'', PyStr ''success''),
           (''message'',
            PyStr (''Dados enviados ao ThingSpeak: '' @ fmt env t @ [CHR 0xC2, CHR 0xB0]
                     @ ''C / '' @ fmt env h @ ''%''))],
      w\<lparr>trace := trace w @ [SendData t h]\<rparr>)"
  by (simp add: test_thingspeak_def send_data_def io_defs thingspeak_message_def)

subsection \<open>The latest reading handler\<close>

text \<open>
  C2 (the code at the failing input): the collection is empty and the query returns
  \<^verbatim>\<open>None\<close>. The handler raises \<^verbatim>\<open>HTTPException(404)\<close> inside its \<^verbatim>\<open>try\<close> block, the
  \<^verbatim>\<open>except Exception\<close> clause of the same block catches it, and the handler raises the
  internal error 500: the status of the response is 500, not 404.
\<close>

theorem get_latest_reading_empty:
  "get_latest_reading env None \<lparr>sensor_readings = [], trace = tr\<rparr> =
     (Inl (HTTPException 500
             (''Erro ao buscar '' @ [CHR 0xC3, CHR 0xBA] @ ''ltima leitura: ''
                @ str_http env 404 ''Nenhum dado encontrado'')),
      \<lparr>sensor_readings = [], trace = tr @ [FindOne]\<rparr>)
   \<and> http_status (fst (get_latest_reading env None \<lparr>sensor_readings = [], trace = tr\<rparr>)) = 500"
  by (simp add: get_latest_reading_def find_one_def io_defs not_doc_def str_exn_def
      latest_error_prefix_def http_status_def)

text \<open>
  C6: for every request to /latest on a collection that is not empty (the query
  returning), the handler returns the temperature and the humidity of the document with
  the largest identifier, the integer zero in place of either field that the document
  does not have, and the list \<^verbatim>\<open>["Bus 101", "Bus 202"]\<close>. When the identifiers grow with
  the order of insertion, that document is the one inserted last.
\<close>

theorem get_latest_reading_nonempty:
  assumes "sensor_readings w \<noteq> []"
  shows "\<exists>i d. (i, d) \<in> set (sensor_readings w)
           \<and> (\<forall>p \<in> set (sensor_readings w). fst p \<le> i)
           \<and> (sorted_wrt (<) (map fst (sensor_readings w)) \<longrightarrow> (i, d) = last (sensor_readings w))
           \<and> get_latest_reading env None w =
               (Inr [(''temperatura'',
                      case map_of d ''temperature'' of None \<Rightarrow> PyInt 0 | Some v \<Rightarrow> v),
                     (''umidade'',
                      case map_of d ''humidity'' of None \<Rightarrow> PyInt 0 | Some v \<Rightarrow> v),
                     (''onibus'', PyList [PyStr ''Bus 101'', PyStr ''Bus 202''])],
                w\<lparr>trace := trace w @ [FindOne]\<rparr>)"
proof -
  from assms obtain i d where n: "newest (sensor_readings w) = Some (i, d)"
    using newest_None [of "sensor_readings w"] by (cases "newest (sensor_readings w)") auto
  have "(i, d) \<in> set (sensor_readings w)"
    using n by (rule newest_mem)
  moreover have "\<forall>p \<in> set (sensor_readings w). fst p \<le> i"
    using newest_max [OF n] by auto
  moreover have "sorted_wrt (<) (map fst (sensor_readings w)) \<longrightarrow> (i, d) = last (sensor_readings w)"
    using newest_last [OF assms] n by auto
  ultimately show ?thesis
    using get_latest_Some [OF n, of env] by blast
qed

theorem get_latest_reading_nonempty_witness:
  "sensor_readings w2 \<noteq> []
   \<and> sorted_wrt (<) (map fst (sensor_readings w2))
   \<and> get_latest_reading env0 None w2 =
       (Inr [(''temperatura'', PyFloat ''25.6''),
             (''umidade'', PyInt 0),
             (''onibus'', PyList [PyStr ''Bus 101'', PyStr ''Bus 202''])],
        w2\<lparr>trace := trace w2 @ [FindOne]\<rparr>)"
proof -
  have ne: "sensor_readings w2 \<noteq> []"
    by (simp add: w2_def)
  have so: "sorted_wrt (<) (map fst (sensor_readings w2))"
    by (simp add: w2_def)
  have la: "last (sensor_readings w2) = (2, [(''temperature'', PyFloat ''25.6'')])"
    by (simp add: w2_def)
  from get_latest_reading_nonempty [OF ne, of env0] so la
  obtain i :: oid and d :: "string pydict"
    where "(i, d) = (2, [(''temperature'', PyFloat ''25.6'')])"
    and "get_latest_reading env0 None w2 =
           (Inr [(''temperatura'',
                  case map_of d ''temperature'' of None \<Rightarrow> PyInt 0 | Some v \<Rightarrow> v),
                 (''umidade'',
                  case map_of d ''humidity'' of None \<Rightarrow> PyInt 0 | Some v \<Rightarrow> v),
                 (''onibus'', PyList [PyStr ''Bus 101'', PyStr ''Bus 202''])],
            w2\<lparr>trace := trace w2 @ [FindOne]\<rparr>)"
    by auto
  then show ?thesis
    using ne so by simp
qed

text \<open>
  C8: a call to /latest leaves the collection as it was; a second call, with nothing
  inserted in between and the query behaving as in the first, returns what the first
  returned; and what a call returns is determined by the contents of the collection:
  two worlds with the same documents give the same response.
\<close>

theorem get_latest_reading_idempotent:
  "sensor_readings (snd (get_latest_reading env fault w)) = sensor_readings w
   \<and> fst (get_latest_reading env fault (snd (get_latest_reading env fault w)))
       = fst (get_latest_reading env fault w)
   \<and> (sensor_readings w = sensor_readings w' \<longrightarrow>
        fst (get_latest_reading env fault w) = fst (get_latest_reading env fault w'))"
  using get_latest_docs [of env fault w]
    get_latest_fun [of "snd (get_latest_reading env fault w)" w env fault]
    get_latest_fun [of w w' env fault]
  by simp

theorem get_latest_reading_idempotent_witness:
  "sensor_readings w2 = sensor_readings (w2\<lparr>trace := [FindOne]\<rparr>)
   \<and> sensor_readings (snd (get_latest_reading env0 None w2)) = sensor_readings w2
   \<and> fst (get_latest_reading env0 None (snd (get_latest_reading env0 None w2)))
       = fst (get_latest_reading env0 None w2)
   \<and> fst (get_latest_reading env0 None w2)
       = fst (get_latest_reading env0 None (w2\<lparr>trace := [FindOne]\<rparr>))"
proof -
  have s: "sensor_readings w2 = sensor_readings (w2\<lparr>trace := [FindOne]\<rparr>)"
    by simp
  show ?thesis
    using s get_latest_reading_idempotent [of env0 None w2 "w2\<lparr>trace := [FindOne]\<rparr>"]
    by simp
qed

end
